theory Spec2Isabelle
  imports Complex_Main
begin

section \<open>Values, dictionaries and exceptions\<close>

text \<open>
  The collector and the API exchange JSON documents. A Python \<open>dict\<close> keeps its keys in
  insertion order, so it is an association list; \<open>json.load\<close> and the dict literals of
  the source only build dicts whose keys are distinct. A finite float is the rational it
  denotes. Strings are byte lists (UTF-8), so the em dash of the source's messages is
  three bytes.
\<close>

datatype json =
    JNull
  | JBool bool
  | JInt int
  | JFloat rat
  | JString string
  | JArray "json list"
  | JObject "(string \<times> json) list"

type_synonym dict = "(string \<times> json) list"

text \<open>Python truthiness, as used by \<open>if cfg.get(...)\<close> and \<open>if not key\<close>.\<close>

fun truthy :: "json \<Rightarrow> bool" where
  "truthy JNull = False"
| "truthy (JBool b) = b"
| "truthy (JInt i) = (i \<noteq> 0)"
| "truthy (JFloat r) = (r \<noteq> 0)"
| "truthy (JString s) = (s \<noteq> [])"
| "truthy (JArray xs) = (xs \<noteq> [])"
| "truthy (JObject kvs) = (kvs \<noteq> [])"

definition dict_get :: "('k \<times> 'v) list \<Rightarrow> 'k \<Rightarrow> 'v option" where
  "dict_get d k = map_of d k"

text \<open>\<open>d.get(k, default)\<close>\<close>

definition dict_get_default :: "dict \<Rightarrow> string \<Rightarrow> json \<Rightarrow> json" where
  "dict_get_default d k dflt = (case dict_get d k of None \<Rightarrow> dflt | Some v \<Rightarrow> v)"

text \<open>\<open>d[k] = v\<close>: an existing key keeps its position, a new key goes to the end.\<close>

fun dict_set :: "('k \<times> 'v) list \<Rightarrow> 'k \<Rightarrow> 'v \<Rightarrow> ('k \<times> 'v) list" where
  "dict_set [] k v = [(k, v)]"
| "dict_set ((k', v') # d) k v =
     (if k' = k then (k, v) # d else (k', v') # dict_set d k v)"

text \<open>\<open>d.update(other)\<close>: the entries of \<open>other\<close> are stored one after the other.\<close>

fun dict_update :: "('k \<times> 'v) list \<Rightarrow> ('k \<times> 'v) list \<Rightarrow> ('k \<times> 'v) list" where
  "dict_update d [] = d"
| "dict_update d ((k, v) # other) = dict_update (dict_set d k v) other"

definition dict_keys :: "('k \<times> 'v) list \<Rightarrow> 'k list" where
  "dict_keys d = map fst d"

text \<open>
  Exceptions are values. Only the class that a handler of the source tests for and the
  text of \<open>str(e)\<close> matter. All of these are subclasses of \<open>Exception\<close>.
\<close>

datatype exn_kind =
    FileNotFoundError
  | PermissionError
  | AttributeError
  | NoSuchProcess
  | AccessDenied
  | ValueError
  | TypeError
  | OverflowError
  | DatabaseError
  | OtherException

datatype exn = Exn (kind: exn_kind) (message: string)

definition em_dash :: string where
  "em_dash = [CHR 0xE2, CHR 0x80, CHR 0x94]"

section \<open>Configuration (collector.py and api.py, \<open>load_config\<close>)\<close>

text \<open>
  What \<open>os.path.exists(CONFIG_FILE)\<close>, \<open>open\<close> and \<open>json.load\<close> find: no file, a file
  on which \<open>open\<close> or \<open>json.load\<close> raises (it cannot be read, or it is not JSON), or a
  file that parses to a JSON value, which need not be an object.
\<close>

datatype config_file =
    NoConfigFile
  | UnreadableConfig exn
  | ConfigDoc json


definition api_DEFAULT_CONFIG :: dict where
  "api_DEFAULT_CONFIG =
    [(''api_engine'', JString ''http''),
     (''api_port'', JInt 19890),
     (''api_key'', JString ''''),
     (''api_enabled'', JBool True)]"

text \<open>
  \<open>cfg.update(doc)\<close> accepts more than a dict, and can store keys that are no strings, so
  the keys of the loaded configuration are hashable Python values: a string, a number
  (\<open>True\<close> and \<open>1\<close> and \<open>1.0\<close> are one key) or \<open>None\<close>. A list and a dict cannot be a
  key.
\<close>

datatype pykey = KStr string | KNum rat | KNone

type_synonym pydict = "(pykey \<times> json) list"

definition key_of :: "json \<Rightarrow> exn_kind + pykey" where
  "key_of j =
     (case j of
        JString s \<Rightarrow> Inr (KStr s)
      | JInt i \<Rightarrow> Inr (KNum (of_int i))
      | JFloat r \<Rightarrow> Inr (KNum r)
      | JBool b \<Rightarrow> Inr (KNum (if b then 1 else 0))
      | JNull \<Rightarrow> Inr KNone
      | JArray xs \<Rightarrow> Inl TypeError
      | JObject d \<Rightarrow> Inl TypeError)"

definition str_keyed :: "dict \<Rightarrow> pydict" where
  "str_keyed d = map (\<lambda>(k, v). (KStr k, v)) d"

text \<open>
  \<open>dict.update\<close> with an argument that is no dict takes it as a sequence of pairs. Each
  element is turned into a sequence, which must have length two: a list of two values, a
  string of two characters (a character is a lead byte with its continuation bytes), or a
  dict with two keys, which then are key and value. An element that is no sequence raises
  \<open>TypeError\<close>, one of another length \<open>ValueError\<close>.
\<close>

definition utf8_cont :: "char \<Rightarrow> bool" where
  "utf8_cont c = (128 \<le> (of_char c :: nat) \<and> (of_char c :: nat) < 192)"

definition update_item :: "json \<Rightarrow> exn_kind + (json \<times> json)" where
  "update_item item =
     (case item of
        JArray xs \<Rightarrow> (case xs of [k, v] \<Rightarrow> Inr (k, v) | other \<Rightarrow> Inl ValueError)
      | JString s \<Rightarrow>
          if length (filter (\<lambda>c. \<not> utf8_cont c) s) = 2
          then Inr (JString (hd s # takeWhile utf8_cont (tl s)),
                    JString (dropWhile utf8_cont (tl s)))
          else Inl ValueError
      | JObject d \<Rightarrow>
          (case dict_keys d of [a, b] \<Rightarrow> Inr (JString a, JString b) | other \<Rightarrow> Inl ValueError)
      | other \<Rightarrow> Inl TypeError)"

text \<open>
  The pairs are stored one after the other, so when an element raises, the pairs before
  it stay stored. The result is the dict as \<open>update\<close> leaves it and the class of the
  exception it raises, if it raises.
\<close>

fun update_from_seq :: "pydict \<Rightarrow> json list \<Rightarrow> pydict \<times> exn_kind option" where
  "update_from_seq cfg [] = (cfg, None)"
| "update_from_seq cfg (item # items) =
     (case update_item item of
        Inl e \<Rightarrow> (cfg, Some e)
      | Inr (k, v) \<Rightarrow>
          (case key_of k of
             Inl e \<Rightarrow> (cfg, Some e)
           | Inr key \<Rightarrow> update_from_seq (dict_set cfg key v) items))"

text \<open>
  \<open>cfg.update(doc)\<close> for a parsed document: a dict is merged; a list is a sequence of
  pairs; a string is the sequence of its characters, each of length one, so a non-empty
  string raises at once; a number, a boolean and \<open>None\<close> cannot be iterated.
\<close>

definition py_dict_update :: "pydict \<Rightarrow> json \<Rightarrow> pydict \<times> exn_kind option" where
  "py_dict_update cfg doc =
     (case doc of
        JObject d \<Rightarrow> (dict_update cfg (str_keyed d), None)
      | JArray items \<Rightarrow> update_from_seq cfg items
      | JString s \<Rightarrow> (cfg, if s = [] then None else Some ValueError)
      | other \<Rightarrow> (cfg, Some TypeError))"

text \<open>
  Both modules share the body: copy the defaults, and if the file exists, open it, parse
  it and update the copy with the document. The handler around these three steps catches
  every exception (the collector prints it, the API passes) and the copy is returned as
  it is then: untouched when \<open>open\<close> or \<open>json.load\<close> raised, with the pairs stored so far
  when \<open>update\<close> raised.
\<close>

definition load_config :: "dict \<Rightarrow> config_file \<Rightarrow> pydict" where
  "load_config defaults f =
     (case f of
        NoConfigFile \<Rightarrow> str_keyed defaults
      | UnreadableConfig e \<Rightarrow> str_keyed defaults
      | ConfigDoc doc \<Rightarrow> fst (py_dict_update (str_keyed defaults) doc))"


definition api_load_config :: "config_file \<Rightarrow> pydict" where
  "api_load_config f = load_config api_DEFAULT_CONFIG f"

section \<open>Clock and timestamps\<close>

text \<open>
  The clock is the number of microseconds since 1970-01-01T00:00:00 UTC. Python's
  \<open>datetime.now(timezone.utc).isoformat()\<close> prints it as
  \<open>YYYY-MM-DDTHH:MM:SS[.ffffff]+00:00\<close> (the fraction is left out when it is zero);
  SQLite's \<open>datetime(...)\<close> prints \<open>YYYY-MM-DD HH:MM:SS\<close>. Both use the proleptic
  Gregorian calendar; the clock is taken to lie before the year 10000, the last one a
  Python \<open>datetime\<close> can hold.
\<close>

definition digit_char :: "nat \<Rightarrow> char" where
  "digit_char n = ''0123456789'' ! (n mod 10)"

definition pad2 :: "nat \<Rightarrow> string" where
  "pad2 n = [digit_char (n div 10), digit_char n]"

definition pad4 :: "nat \<Rightarrow> string" where
  "pad4 n = [digit_char (n div 1000), digit_char (n div 100), digit_char (n div 10),
             digit_char n]"

definition pad6 :: "nat \<Rightarrow> string" where
  "pad6 n = [digit_char (n div 100000), digit_char (n div 10000), digit_char (n div 1000),
             digit_char (n div 100), digit_char (n div 10), digit_char n]"

text \<open>Year, month and day of a day number counted from 1970-01-01 (day 0).\<close>

definition civil_from_days :: "int \<Rightarrow> int \<times> nat \<times> nat" where
  "civil_from_days days =
     (let z = days + 719468;
          era = z div 146097;
          doe = z - era * 146097;
          yoe = (doe - doe div 1460 + doe div 36524 - doe div 146096) div 365;
          y = yoe + era * 400;
          doy = doe - (365 * yoe + yoe div 4 - yoe div 100);
          mp = (5 * doy + 2) div 153;
          d = doy - (153 * mp + 2) div 5 + 1;
          m = (if mp < 10 then mp + 3 else mp - 9)
      in (if m \<le> 2 then y + 1 else y, nat m, nat d))"

definition clock_text :: "int \<Rightarrow> string" where
  "clock_text secs =
     (let r = nat (secs mod 86400)
      in pad2 (r div 3600) @ '':'' @ pad2 (r mod 3600 div 60) @ '':'' @ pad2 (r mod 60))"

definition date_text :: "int \<Rightarrow> string" where
  "date_text secs =
     (case civil_from_days (secs div 86400) of
        (y, m, d) \<Rightarrow>
          (if y < 0 then ''-'' else []) @ pad4 (nat \<bar>y\<bar>) @ ''-'' @ pad2 m @ ''-'' @ pad2 d)"

definition isoformat_utc :: "int \<Rightarrow> string" where
  "isoformat_utc us =
     (let secs = us div 1000000; frac = nat (us mod 1000000)
      in date_text secs @ ''T'' @ clock_text secs
         @ (if frac = 0 then [] else ''.'' @ pad6 frac) @ ''+00:00'')"

text \<open>
  \<open>datetime('now', '-K days')\<close> at clock \<open>us\<close>: the seconds are truncated, K days are
  subtracted, and the result is NULL (\<open>None\<close>) when it leaves the range of Julian days
  that SQLite accepts (it starts at noon of -4713-11-24).
\<close>

definition sqlite_datetime_now_minus_days :: "int \<Rightarrow> nat \<Rightarrow> string option" where
  "sqlite_datetime_now_minus_days us k =
     (let secs = us div 1000000 - int k * 86400
      in if secs < - 210866760000 \<or> 253402300799 < secs then None
         else Some (date_text secs @ '' '' @ clock_text secs))"

text \<open>
  SQLite compares two TEXT values with the BINARY collation: byte by byte, a proper
  prefix being the smaller one.
\<close>

fun text_less :: "string \<Rightarrow> string \<Rightarrow> bool" where
  "text_less [] [] = False"
| "text_less [] (y # ys) = True"
| "text_less (x # xs) [] = False"
| "text_less (x # xs) (y # ys) =
     (if (of_char x :: nat) < of_char y then True
      else if (of_char y :: nat) < of_char x then False
      else text_less xs ys)"

section \<open>Collectors (collector.py)\<close>



































section \<open>Snapshot cache (collector.py, \<open>write_cache\<close>)\<close>

text \<open>
  The file system maps a path to the content of the file there. \<open>write_cache\<close> opens
  \<open>CACHE_FILE + ".tmp"\<close> for writing (which truncates it), lets \<open>json.dump\<close> write the
  serialization piece by piece, closes the file and calls \<open>os.replace\<close>, which the
  operating system performs as one step. Any of these can raise; the handler prints the
  error and returns. A fault says where the write raises, if it does. The serializer
  \<open>ser\<close> stands for \<open>json.dump(stats, f, indent=2)\<close>: \<open>ser stats\<close> is the complete text.

  The trace lists every state of the file system that another process can observe while
  \<open>write_cache\<close> runs, the state before the call first. Every prefix of the text is listed
  as a state of the temporary file, so no flush of the buffer is missed.
\<close>

type_synonym filesystem = "string \<Rightarrow> string option"

definition CACHE_FILE :: string where
  "CACHE_FILE = ''/opt/Atlas/cache/stats.json''"

datatype write_fault =
    NoFault
  | OpenFails exn
  | DumpFails nat exn
  | ReplaceFails exn

definition tmp_states :: "filesystem \<Rightarrow> string \<Rightarrow> string \<Rightarrow> nat \<Rightarrow> filesystem list" where
  "tmp_states fs tmp text n = map (\<lambda>k. fs(tmp \<mapsto> take k text)) [0..<Suc n]"

definition write_cache_trace ::
  "(dict \<Rightarrow> string) \<Rightarrow> filesystem \<Rightarrow> dict \<Rightarrow> write_fault \<Rightarrow> filesystem list" where
  "write_cache_trace ser fs stats fault =
     (let tmp = CACHE_FILE @ ''.tmp''; text = ser stats
      in case fault of
           OpenFails e \<Rightarrow> [fs]
         | DumpFails n e \<Rightarrow> fs # tmp_states fs tmp text (min n (length text))
         | ReplaceFails e \<Rightarrow> fs # tmp_states fs tmp text (length text)
         | NoFault \<Rightarrow>
             fs # tmp_states fs tmp text (length text)
               @ [(fs(tmp := None))(CACHE_FILE \<mapsto> text)])"

definition write_cache ::
  "(dict \<Rightarrow> string) \<Rightarrow> filesystem \<Rightarrow> dict \<Rightarrow> write_fault \<Rightarrow> filesystem" where
  "write_cache ser fs stats fault = last (write_cache_trace ser fs stats fault)"

text \<open>\<open>os.path.dirname\<close>: everything before the last slash.\<close>

definition dirname :: "string \<Rightarrow> string" where
  "dirname p = rev (tl (dropWhile (\<lambda>c. c \<noteq> CHR ''/'') (rev p)))"

section \<open>Cache file as the API reads it (api.py, \<open>load_cache\<close>)\<close>

text \<open>
  What \<open>os.path.exists\<close>, \<open>open\<close> and \<open>json.load\<close> find at \<open>CACHE_FILE\<close>: nothing, a
  file that does not parse, or a document. The collector only ever writes a JSON object
  there, so a document is a dict. \<open>loads\<close> stands for the JSON parser.
\<close>

datatype cache_file =
    NoCacheFile
  | UnparseableCache
  | CacheDoc dict

definition cache_file_of :: "(string \<Rightarrow> dict option) \<Rightarrow> string option \<Rightarrow> cache_file" where
  "cache_file_of loads content =
     (case content of
        None \<Rightarrow> NoCacheFile
      | Some text \<Rightarrow> (case loads text of None \<Rightarrow> UnparseableCache | Some d \<Rightarrow> CacheDoc d))"

definition load_cache :: "cache_file \<Rightarrow> dict option" where
  "load_cache c = (case c of CacheDoc d \<Rightarrow> Some d | _ \<Rightarrow> None)"

text \<open>
  A reader that runs while the collector writes: \<open>os.path.exists\<close> sees the state
  \<open>seen\<close>, and \<open>open\<close> with \<open>json.load\<close> the state \<open>opened\<close>; a file that has vanished in
  between makes \<open>open\<close> raise, which \<open>load_cache\<close> turns into \<open>None\<close>.
\<close>

definition load_cache_during ::
  "(string \<Rightarrow> dict option) \<Rightarrow> filesystem \<Rightarrow> filesystem \<Rightarrow> dict option" where
  "load_cache_during loads seen opened =
     (if seen CACHE_FILE = None then None
      else load_cache (cache_file_of loads (opened CACHE_FILE)))"

section \<open>History store (collector.py, \<open>write_history\<close>)\<close>

text \<open>
  The SQLite file at \<open>DB_FILE\<close>: absent, a file on which every statement raises (not a
  database, locked, unreadable), a database without the \<open>snapshots\<close> table, or a database
  with the table. \<open>seq\<close> is the counter behind \<open>AUTOINCREMENT\<close>. A value is kept in the
  storage class it was bound in: \<open>collect_all\<close> binds text to \<open>collected_at\<close> and
  \<open>hostname\<close> and a float or NULL to the percentages, for which the column affinities
  change nothing. \<open>raw_json\<close> holds the snapshot that \<open>json.dumps\<close> serialized.
\<close>

datatype sqlval = SqlNull | SqlInt int | SqlReal rat | SqlText string

record history_row =
  row_id :: nat
  collected_at :: sqlval
  hostname :: sqlval
  cpu_percent :: sqlval
  ram_percent :: sqlval
  disk_percent :: sqlval
  raw_json :: dict

record snapshots_table =
  seq :: nat
  table_rows :: "history_row list"

datatype db_file =
    NoDb
  | BrokenDb string
  | DbNoTable
  | Db snapshots_table

text \<open>
  How the \<open>sqlite3\<close> module binds a Python value: \<open>None\<close> is NULL, a bool is an integer,
  an int must fit 64 bits, a list or a dict cannot be bound.
\<close>

definition sqlite_bind :: "json option \<Rightarrow> exn + sqlval" where
  "sqlite_bind v =
     (case v of
        None \<Rightarrow> Inr SqlNull
      | Some JNull \<Rightarrow> Inr SqlNull
      | Some (JBool b) \<Rightarrow> Inr (SqlInt (if b then 1 else 0))
      | Some (JInt i) \<Rightarrow>
          if - (2 ^ 63) \<le> i \<and> i < 2 ^ 63 then Inr (SqlInt i)
          else Inl (Exn OverflowError ''Python int too large to convert to SQLite INTEGER'')
      | Some (JFloat r) \<Rightarrow> Inr (SqlReal r)
      | Some (JString s) \<Rightarrow> Inr (SqlText s)
      | Some (JArray xs) \<Rightarrow> Inl (Exn DatabaseError ''Error binding parameter'')
      | Some (JObject kvs) \<Rightarrow> Inl (Exn DatabaseError ''Error binding parameter''))"

text \<open>\<open>stats.get(section, {}).get(field)\<close>; \<open>.get\<close> on a value that is no dict raises.\<close>

definition get_get :: "dict \<Rightarrow> string \<Rightarrow> string \<Rightarrow> exn + json option" where
  "get_get stats name field =
     (case dict_get stats name of
        None \<Rightarrow> Inr None
      | Some (JObject d) \<Rightarrow> Inr (dict_get d field)
      | Some other \<Rightarrow> Inl (Exn OtherException ''object has no attribute get''))"

text \<open>
  \<open>parts = stats.get("disk", {}).get("partitions", [{}])\<close> and
  \<open>disk_pct = parts[0].get("percent") if parts else None\<close>.
\<close>

definition disk_pct :: "dict \<Rightarrow> exn + json option" where
  "disk_pct stats =
     (case get_get stats ''disk'' ''partitions'' of
        Inl e \<Rightarrow> Inl e
      | Inr None \<Rightarrow> Inr None
      | Inr (Some parts) \<Rightarrow>
          if \<not> truthy parts then Inr None
          else (case parts of
                  JArray (JObject first # rest) \<Rightarrow> Inr (dict_get first ''percent'')
                | other \<Rightarrow> Inl (Exn OtherException ''partitions entry is not a dict'')))"

text \<open>
  The WHERE clause \<open>collected_at < cutoff\<close> of the DELETE. A comparison with NULL is not
  true; a number sorts before any text; two texts compare byte by byte.
\<close>

definition older_than :: "sqlval \<Rightarrow> string option \<Rightarrow> bool" where
  "older_than v cutoff =
     (case cutoff of
        None \<Rightarrow> False
      | Some c \<Rightarrow>
          (case v of
             SqlNull \<Rightarrow> False
           | SqlInt i \<Rightarrow> True
           | SqlReal r \<Rightarrow> True
           | SqlText t \<Rightarrow> text_less t c))"

text \<open>
  The values of the INSERT, in the order of the statement; \<open>collected_at\<close> is declared
  NOT NULL, so a NULL there makes the INSERT raise.
\<close>

definition insert_values :: "dict \<Rightarrow> exn + (sqlval \<times> sqlval \<times> sqlval \<times> sqlval \<times> sqlval)" where
  "insert_values stats =
     (case disk_pct stats of
        Inl e \<Rightarrow> Inl e
      | Inr dp \<Rightarrow>
     (case get_get stats ''cpu'' ''percent'' of
        Inl e \<Rightarrow> Inl e
      | Inr cp \<Rightarrow>
     (case get_get stats ''ram'' ''percent'' of
        Inl e \<Rightarrow> Inl e
      | Inr rp \<Rightarrow>
     (case sqlite_bind (dict_get stats ''collected_at'') of
        Inl e \<Rightarrow> Inl e
      | Inr ca \<Rightarrow>
     (case sqlite_bind (dict_get stats ''hostname'') of
        Inl e \<Rightarrow> Inl e
      | Inr hn \<Rightarrow>
     (case sqlite_bind cp of
        Inl e \<Rightarrow> Inl e
      | Inr c \<Rightarrow>
     (case sqlite_bind rp of
        Inl e \<Rightarrow> Inl e
      | Inr r \<Rightarrow>
     (case sqlite_bind dp of
        Inl e \<Rightarrow> Inl e
      | Inr d \<Rightarrow>
          if ca = SqlNull
          then Inl (Exn DatabaseError ''NOT NULL constraint failed: snapshots.collected_at'')
          else Inr (ca, hn, c, r, d)))))))))"

text \<open>
  \<open>write_history(stats, keep_days)\<close> at clock \<open>now\<close>. CREATE TABLE and CREATE INDEX take
  effect at once; the INSERT and the DELETE are committed together at the end, and an
  exception before the commit leaves the rows as they were. The result says whether the
  cycle was committed; otherwise the handler has printed the error. \<open>keep_days\<close> is a
  non-negative integer, as the configuration documents it.
\<close>

definition write_history :: "dict \<Rightarrow> nat \<Rightarrow> int \<Rightarrow> db_file \<Rightarrow> db_file \<times> bool" where
  "write_history stats keep_days now db =
     (case db of
        BrokenDb msg \<Rightarrow> (BrokenDb msg, False)
      | other \<Rightarrow>
          (let t = (case db of Db t \<Rightarrow> t | other \<Rightarrow> \<lparr>seq = 0, table_rows = []\<rparr>)
           in case insert_values stats of
                Inl e \<Rightarrow> (Db t, False)
              | Inr (ca, hn, c, r, d) \<Rightarrow>
                  (let new = \<lparr>row_id = Suc (seq t), collected_at = ca, hostname = hn,
                                cpu_percent = c, ram_percent = r, disk_percent = d,
                                raw_json = stats\<rparr>;
                       cutoff = sqlite_datetime_now_minus_days now keep_days;
                       kept = filter (\<lambda>row. \<not> older_than (collected_at row) cutoff)
                                (table_rows t @ [new])
                   in (Db \<lparr>seq = Suc (seq t), table_rows = kept\<rparr>, True))))"

section \<open>Query layer (api.py)\<close>

text \<open>
  What a request can observe: the cache file, the database file and the clock. A
  response is the status code and the JSON body handed to \<open>send_json\<close> or \<open>jsonify\<close>.
\<close>

record api_env =
  cache :: cache_file
  db :: db_file
  now :: int

type_synonym response = "nat \<times> json"

definition check_key :: "string \<Rightarrow> dict \<Rightarrow> bool" where
  "check_key provided cfg =
     (let key = dict_get_default cfg ''api_key'' (JString '''')
      in if \<not> truthy key then True else JString provided = key)"

text \<open>
  \<open>headers.get("X-ATLAS-Key") or headers.get("x-atlas-key") or params.get("key", "")\<close>:
  a missing or empty header falls through to the next operand. \<open>headers\<close> is the dict
  the engine builds from its header object, \<open>params\<close> the lookup of a query parameter.
\<close>

definition get_key_from_request ::
  "(string \<times> string) list \<Rightarrow> (string \<Rightarrow> string option) \<Rightarrow> string" where
  "get_key_from_request headers params =
     (case map_of headers ''X-ATLAS-Key'' of
        Some (c # cs) \<Rightarrow> c # cs
      | other \<Rightarrow>
          (case map_of headers ''x-atlas-key'' of
             Some (c # cs) \<Rightarrow> c # cs
           | other \<Rightarrow> (case params ''key'' of Some v \<Rightarrow> v | None \<Rightarrow> '''')))"

definition cache_not_found :: response where
  "cache_not_found =
     (503, JObject [(''error'',
        JString (''Cache not found '' @ em_dash @ '' is collector running?''))])"

definition metadata_keys :: "string list" where
  "metadata_keys = [''atlas_version'', ''collected_at'', ''hostname'']"

definition json_or_null :: "json option \<Rightarrow> json" where
  "json_or_null v = (case v of None \<Rightarrow> JNull | Some j \<Rightarrow> j)"

definition make_stats_response :: "api_env \<Rightarrow> string option \<Rightarrow> response" where
  "make_stats_response env section_arg =
     (case load_cache (cache env) of
        None \<Rightarrow> cache_not_found
      | Some data \<Rightarrow>
          (case section_arg of
             Some (c # cs) \<Rightarrow>
               (let name = c # cs;
                    available = filter (\<lambda>k. k \<notin> set metadata_keys) (dict_keys data)
                in case dict_get data name of
                     None \<Rightarrow>
                       (404, JObject [(''error'', JString (''Section '' @ [CHR 0x27] @ name
                                         @ [CHR 0x27] @ '' not found'')),
                                      (''available'', JArray (map JString available))])
                   | Some payload \<Rightarrow>
                       (200, JObject [(''section'', JString name),
                                      (''hostname'', json_or_null (dict_get data ''hostname'')),
                                      (''collected_at'',
                                         json_or_null (dict_get data ''collected_at'')),
                                      (''data'', payload)]))
           | other \<Rightarrow> (200, JObject data)))"

text \<open>
  The \<open>limit\<close> argument is the int 100 or the string of the query parameter.
  \<open>py_int\<close> stands for Python's \<open>int\<close> on a string.
\<close>

datatype limit_arg = LimitInt int | LimitStr string

definition int_of_limit :: "(string \<Rightarrow> exn + int) \<Rightarrow> limit_arg \<Rightarrow> exn + int" where
  "int_of_limit py_int limit = (case limit of LimitInt i \<Rightarrow> Inr i | LimitStr s \<Rightarrow> py_int s)"

text \<open>
  \<open>ORDER BY collected_at DESC\<close>: NULL sorts first, then numbers, then text; among rows
  with the same \<open>collected_at\<close>, which SQL leaves open, the newer row comes first, as a
  backward scan of the index \<open>idx_ts\<close> gives them.
\<close>

definition sql_less :: "sqlval \<Rightarrow> sqlval \<Rightarrow> bool" where
  "sql_less a b =
     (case (a, b) of
        (SqlNull, SqlNull) \<Rightarrow> False
      | (SqlNull, other) \<Rightarrow> True
      | (other, SqlNull) \<Rightarrow> False
      | (SqlText s, SqlText t) \<Rightarrow> text_less s t
      | (SqlText s, other) \<Rightarrow> False
      | (other, SqlText t) \<Rightarrow> True
      | (SqlInt i, SqlInt j) \<Rightarrow> i < j
      | (SqlInt i, SqlReal r) \<Rightarrow> of_int i < r
      | (SqlReal r, SqlInt j) \<Rightarrow> r < of_int j
      | (SqlReal r, SqlReal q) \<Rightarrow> r < q)"

definition comes_before :: "history_row \<Rightarrow> history_row \<Rightarrow> bool" where
  "comes_before r x =
     (sql_less (collected_at x) (collected_at r)
      \<or> (\<not> sql_less (collected_at r) (collected_at x) \<and> row_id x < row_id r))"

fun insert_desc :: "history_row \<Rightarrow> history_row list \<Rightarrow> history_row list" where
  "insert_desc r [] = [r]"
| "insert_desc r (x # xs) = (if comes_before r x then r # x # xs else x # insert_desc r xs)"

definition order_by_collected_at_desc :: "history_row list \<Rightarrow> history_row list" where
  "order_by_collected_at_desc rs = foldr insert_desc rs []"

text \<open>\<open>LIMIT n\<close>: a negative \<open>n\<close> is no limit at all in SQLite.\<close>

definition sql_limit :: "int \<Rightarrow> 'a list \<Rightarrow> 'a list" where
  "sql_limit n xs = (if n < 0 then xs else take (nat n) xs)"

definition json_of_sqlval :: "sqlval \<Rightarrow> json" where
  "json_of_sqlval v =
     (case v of SqlNull \<Rightarrow> JNull | SqlInt i \<Rightarrow> JInt i | SqlReal r \<Rightarrow> JFloat r
      | SqlText t \<Rightarrow> JString t)"

definition row_dict :: "history_row \<Rightarrow> json" where
  "row_dict r =
     JObject [(''collected_at'', json_of_sqlval (collected_at r)),
              (''hostname'', json_of_sqlval (hostname r)),
              (''cpu_percent'', json_of_sqlval (cpu_percent r)),
              (''ram_percent'', json_of_sqlval (ram_percent r)),
              (''disk_percent'', json_of_sqlval (disk_percent r))]"

definition error_response :: "nat \<Rightarrow> string \<Rightarrow> response" where
  "error_response code msg = (code, JObject [(''error'', JString msg)])"

definition make_history_response ::
  "(string \<Rightarrow> exn + int) \<Rightarrow> api_env \<Rightarrow> limit_arg \<Rightarrow> response" where
  "make_history_response py_int env limit =
     (if db env = NoDb then error_response 404 ''History not enabled or no data yet''
      else
        (case int_of_limit py_int limit of
           Inl e \<Rightarrow> error_response 500 (message e)
         | Inr n \<Rightarrow>
             (let lim = min n 1000
              in case db env of
                   NoDb \<Rightarrow> error_response 404 ''History not enabled or no data yet''
                 | BrokenDb msg \<Rightarrow> error_response 500 msg
                 | DbNoTable \<Rightarrow> error_response 500 ''no such table: snapshots''
                 | Db t \<Rightarrow>
                     if lim < - (2 ^ 63)
                     then error_response 500
                            ''Python int too large to convert to SQLite INTEGER''
                     else
                       (let found = sql_limit lim (order_by_collected_at_desc (table_rows t))
                        in (200, JObject [(''count'', JInt (int (length found))),
                                          (''limit'', JInt lim),
                                          (''snapshots'', JArray (map row_dict found))])))))"

definition make_ping_response :: "api_env \<Rightarrow> response" where
  "make_ping_response env =
     (200, JObject [(''status'', JString ''ok''),
                    (''service'', JString ''ATLAS''),
                    (''version'', JString ''2.1.0''),
                    (''time'', JString (isoformat_utc (now env))),
                    (''cache'', JBool (cache env \<noteq> NoCacheFile))])"

definition unauthorized :: response where
  "unauthorized =
     error_response 401 (''Unauthorized '' @ em_dash @ '' provide X-ATLAS-Key header'')"

definition not_found :: response where
  "not_found = error_response 404 ''Not found''"

text \<open>
  A GET request as the handler of one engine is given it by its library: the path it
  routes on, the decoded pairs of the query string in their order, and the dict it makes
  of the headers. For the http engine these are \<open>urlparse(self.path).path\<close>, the pairs
  that \<open>parse_qs\<close> groups, and \<open>dict(self.headers)\<close>; for the Flask engine the path that
  the URL map matches, the pairs behind \<open>request.args\<close>, and \<open>dict(request.headers)\<close>.
  The two libraries derive them from the request on the wire each in its own way, so a
  request record is the view of one engine, and what is said below about a request of
  \<open>do_GET\<close> or of \<open>flask_serve\<close> is said of that engine's view.
\<close>

record request =
  path :: string
  query :: "(string \<times> string) list"
  headers :: "(string \<times> string) list"

text \<open>
  The header dicts. The header lines of a request are its names, as the client spelled
  them, with their values; a name is ASCII, occurs once and has no underscore (lines
  that the WSGI server would merge or drop). \<open>dict(self.headers)\<close> of \<open>http.server\<close>
  keeps the client's spelling. Werkzeug keeps a header named \<open>N\<close> under the WSGI key
  \<open>HTTP_\<close> followed by \<open>N\<close> in upper case, and \<open>dict(request.headers)\<close> spells it
  Python's \<open>title()\<close> of that: the first letter of every run of letters in upper case,
  the others in lower case.
\<close>

definition ascii_lowercase :: string where
  "ascii_lowercase = ''abcdefghijklmnopqrstuvwxyz''"

definition ascii_uppercase :: string where
  "ascii_uppercase = ''ABCDEFGHIJKLMNOPQRSTUVWXYZ''"

definition ascii_upper :: "char \<Rightarrow> char" where
  "ascii_upper c =
     (case map_of (zip ascii_lowercase ascii_uppercase) c of Some u \<Rightarrow> u | None \<Rightarrow> c)"

definition ascii_lower :: "char \<Rightarrow> char" where
  "ascii_lower c =
     (case map_of (zip ascii_uppercase ascii_lowercase) c of Some l \<Rightarrow> l | None \<Rightarrow> c)"

fun title_from :: "bool \<Rightarrow> string \<Rightarrow> string" where
  "title_from previous_is_cased [] = []"
| "title_from previous_is_cased (c # cs) =
     (if c \<in> set ascii_lowercase
      then (if previous_is_cased then c else ascii_upper c) # title_from True cs
      else if c \<in> set ascii_uppercase
      then (if previous_is_cased then ascii_lower c else c) # title_from True cs
      else c # title_from False cs)"

definition py_title :: "string \<Rightarrow> string" where
  "py_title s = title_from False s"

definition http_header_dict :: "(string \<times> string) list \<Rightarrow> (string \<times> string) list" where
  "http_header_dict header_lines = header_lines"

definition flask_header_dict :: "(string \<times> string) list \<Rightarrow> (string \<times> string) list" where
  "flask_header_dict header_lines =
     map (\<lambda>(name, value). (py_title (map ascii_upper name), value)) header_lines"

text \<open>
  \<open>{k: v[0] for k, v in parse_qs(parsed.query).items()}\<close>: \<open>parse_qs\<close> drops pairs
  with a blank value, and the first value left for a key is taken.
\<close>

definition http_params :: "(string \<times> string) list \<Rightarrow> string \<Rightarrow> string option" where
  "http_params q = map_of (filter (\<lambda>(k, v). v \<noteq> []) q)"

text \<open>\<open>request.args.get(k)\<close>: the first value of the key, blank or not.\<close>

definition flask_args :: "(string \<times> string) list \<Rightarrow> string \<Rightarrow> string option" where
  "flask_args q = map_of q"

definition rstrip_slash :: "string \<Rightarrow> string" where
  "rstrip_slash p = rev (dropWhile (\<lambda>c. c = CHR ''/'') (rev p))"

definition limit_of :: "(string \<Rightarrow> string option) \<Rightarrow> limit_arg" where
  "limit_of params = (case params ''limit'' of None \<Rightarrow> LimitInt 100 | Some s \<Rightarrow> LimitStr s)"

definition do_GET :: "(string \<Rightarrow> exn + int) \<Rightarrow> dict \<Rightarrow> api_env \<Rightarrow> request \<Rightarrow> response" where
  "do_GET py_int cfg env req =
     (let p = rstrip_slash (path req);
          params = http_params (query req);
          key = get_key_from_request (headers req) params
      in if p = ''/api/ping'' then make_ping_response env
         else if \<not> check_key key cfg then unauthorized
         else if p = ''/api/stats'' then make_stats_response env None
         else if take 11 p = ''/api/stats/''
           then make_stats_response env (Some (drop 11 p))
         else if p = ''/api/history''
           then make_history_response py_int env (limit_of params)
         else not_found)"

text \<open>
  The Flask engine. The URL map matches a path against the four rules as written; the
  \<open>string\<close> converter takes one non-empty segment without a slash; a path that matches
  no rule raises 404 before any view runs, and \<open>abort(401)\<close> and that 404 are rendered by
  the two error handlers. Paths with an empty segment, which Werkzeug may redirect, are
  outside what the properties below rely on.
\<close>

datatype flask_rule = PingRule | StatsRule | StatsSectionRule string | HistoryRule | NoRule

definition flask_match :: "string \<Rightarrow> flask_rule" where
  "flask_match p =
     (if p = ''/api/ping'' then PingRule
      else if p = ''/api/stats'' then StatsRule
      else if take 11 p = ''/api/stats/'' \<and> drop 11 p \<noteq> [] \<and> CHR ''/'' \<notin> set (drop 11 p)
        then StatsSectionRule (drop 11 p)
      else if p = ''/api/history'' then HistoryRule
      else NoRule)"

definition flask_auth :: "dict \<Rightarrow> request \<Rightarrow> bool" where
  "flask_auth cfg req =
     check_key (get_key_from_request (headers req) (flask_args (query req))) cfg"

definition flask_serve :: "(string \<Rightarrow> exn + int) \<Rightarrow> dict \<Rightarrow> api_env \<Rightarrow> request \<Rightarrow> response" where
  "flask_serve py_int cfg env req =
     (case flask_match (path req) of
        PingRule \<Rightarrow> (200, snd (make_ping_response env))
      | StatsRule \<Rightarrow>
          if \<not> flask_auth cfg req then unauthorized else make_stats_response env None
      | StatsSectionRule name \<Rightarrow>
          if \<not> flask_auth cfg req then unauthorized
          else make_stats_response env (Some name)
      | HistoryRule \<Rightarrow>
          if \<not> flask_auth cfg req then unauthorized
          else make_history_response py_int env (limit_of (flask_args (query req)))
      | NoRule \<Rightarrow> not_found)"

text \<open>A parser of plain decimal integers, to run the handlers on sample requests.\<close>

fun digits_value :: "string \<Rightarrow> nat \<Rightarrow> nat option" where
  "digits_value [] acc = Some acc"
| "digits_value (c # cs) acc =
     (if (48::nat) \<le> of_char c \<and> (of_char c :: nat) \<le> 57
      then digits_value cs (10 * acc + (of_char c - 48))
      else None)"

definition decimal_int :: "string \<Rightarrow> exn + int" where
  "decimal_int s =
     (let bad = Inl (Exn ValueError (''invalid literal for int() with base 10: ''
                                      @ [CHR 0x27] @ s @ [CHR 0x27]))
      in case s of
           [] \<Rightarrow> bad
         | c # cs \<Rightarrow>
             if c = CHR ''-'' \<and> cs \<noteq> []
             then (case digits_value cs 0 of None \<Rightarrow> bad | Some n \<Rightarrow> Inr (- int n))
             else (case digits_value s 0 of None \<Rightarrow> bad | Some n \<Rightarrow> Inr (int n)))"

section \<open>Facts about dictionaries\<close>



lemma dict_get_Nil: "dict_get [] k = None"
  by (simp add: dict_get_def)

lemma dict_get_Cons:
  "dict_get ((k', v) # d) k = (if k = k' then Some v else dict_get d k)"
  by (simp add: dict_get_def)




lemma dict_get_rev_distinct:
  "distinct (map fst d) \<Longrightarrow> dict_get (rev d) k = dict_get d k"
  unfolding dict_get_def
  by (metis distinct_rev map_of_inject_set rev_map set_rev)

section \<open>Configuration merge and fallback\<close>







text \<open>
  A file that parses to a list is taken as a sequence of pairs. Here the third element is
  no pair: \<open>update\<close> raises, the handler catches it, and the two pairs before it stay in
  the configuration that is returned.
\<close>

lemma load_config_list_document:
  "dict_get (api_load_config (ConfigDoc (JArray
      [JArray [JString ''collect_cpu'', JBool False],
       JArray [JString ''api_key'', JString ''pwned''],
       JInt 5]))) (KStr ''api_key'') = Some (JString ''pwned'')
   \<and> snd (py_dict_update (str_keyed api_DEFAULT_CONFIG) (JArray
      [JArray [JString ''collect_cpu'', JBool False],
       JArray [JString ''api_key'', JString ''pwned''],
       JInt 5])) = Some TypeError"
  by (simp add: api_load_config_def load_config_def py_dict_update_def update_item_def
        key_of_def str_keyed_def api_DEFAULT_CONFIG_def dict_get_Cons dict_get_Nil)


section \<open>Facts about one collection cycle\<close>




section \<open>Section isolation\<close>








section \<open>Ping\<close>

text \<open>
  C8. Ping noninterference. On both engines a request for \<open>/api/ping\<close> is answered with
  status 200 and the five fields \<open>status\<close>, \<open>service\<close>, \<open>version\<close>, \<open>time\<close> (the clock)
  and \<open>cache\<close> (whether the cache file exists). Two runs that agree on the clock and on the
  existence of the cache file give the same response, whatever their configurations (so
  whether a key is configured, and which), the keys presented, the content of the cache
  file and the state of the database.
\<close>

theorem ping_noninterference:
  assumes "now env = now env'"
    and "(cache env = NoCacheFile) = (cache env' = NoCacheFile)"
    and "rstrip_slash (path req) = ''/api/ping''"
    and "rstrip_slash (path req') = ''/api/ping''"
  shows "do_GET py_int cfg env req =
           (200, JObject [(''status'', JString ''ok''),
                          (''service'', JString ''ATLAS''),
                          (''version'', JString ''2.1.0''),
                          (''time'', JString (isoformat_utc (now env))),
                          (''cache'', JBool (cache env \<noteq> NoCacheFile))])
         \<and> do_GET py_int' cfg' env' req' = do_GET py_int cfg env req
         \<and> flask_serve py_int cfg env (req\<lparr>path := ''/api/ping''\<rparr>) = do_GET py_int cfg env req
         \<and> flask_serve py_int' cfg' env' (req'\<lparr>path := ''/api/ping''\<rparr>)
             = do_GET py_int cfg env req"
  using assms
  unfolding do_GET_def flask_serve_def Let_def
  by (simp add: make_ping_response_def flask_match_def)

theorem ping_noninterference_witness:
  "do_GET decimal_int []
      \<lparr>cache = CacheDoc [(''cpu'', JObject [])], db = NoDb, now = 1793793600000000\<rparr>
      \<lparr>path = ''/api/ping'', query = [], headers = []\<rparr>
    = (200, JObject [(''status'', JString ''ok''),
                     (''service'', JString ''ATLAS''),
                     (''version'', JString ''2.1.0''),
                     (''time'', JString (isoformat_utc 1793793600000000)),
                     (''cache'', JBool True)])
   \<and> do_GET decimal_int [(''api_key'', JString ''s3cret'')]
      \<lparr>cache = UnparseableCache, db = DbNoTable, now = 1793793600000000\<rparr>
      \<lparr>path = ''/api/ping/'', query = [(''key'', ''wrong'')], headers = []\<rparr>
    = do_GET decimal_int []
      \<lparr>cache = CacheDoc [(''cpu'', JObject [])], db = NoDb, now = 1793793600000000\<rparr>
      \<lparr>path = ''/api/ping'', query = [], headers = []\<rparr>"
  using ping_noninterference
    [of "\<lparr>cache = CacheDoc [(''cpu'', JObject [])], db = NoDb, now = 1793793600000000\<rparr>"
        "\<lparr>cache = UnparseableCache, db = DbNoTable, now = 1793793600000000\<rparr>"
        "\<lparr>path = ''/api/ping'', query = [], headers = []\<rparr>"
        "\<lparr>path = ''/api/ping/'', query = [(''key'', ''wrong'')], headers = []\<rparr>"
        decimal_int "[]" decimal_int "[(''api_key'', JString ''s3cret'')]"]
  by (simp add: rstrip_slash_def)

section \<open>Section queries\<close>

lemma rstrip_slash_section_nonempty:
  assumes "take 11 (rstrip_slash p) = ''/api/stats/''"
  shows "drop 11 (rstrip_slash p) \<noteq> []"
proof
  assume "drop 11 (rstrip_slash p) = []"
  then have "rstrip_slash p = take 11 (rstrip_slash p)"
    by (metis append_Nil2 append_take_drop_id)
  with assms have eq: "rstrip_slash p = ''/api/stats/''" by simp
  then have "rev (rstrip_slash p) = rev ''/api/stats/''" by simp
  then have "dropWhile (\<lambda>c. c = CHR ''/'') (rev p) = CHR ''/'' # rev ''/api/stats''"
    by (simp add: rstrip_slash_def)
  then have "hd (dropWhile (\<lambda>c. c = CHR ''/'') (rev p)) = CHR ''/''"
    and "dropWhile (\<lambda>c. c = CHR ''/'') (rev p) \<noteq> []"
    by simp_all
  then show False
    using hd_dropWhile [of "\<lambda>c. c = CHR ''/''" "rev p"] by simp
qed

text \<open>
  C7. Section query conditions. With a snapshot in the cache, a query for a section name
  that is not a key of the snapshot is answered 404 with the list \<open>available\<close> equal to
  the keys of that snapshot, in their order, without \<open>atlas_version\<close>, \<open>collected_at\<close> and
  \<open>hostname\<close>; this holds for \<open>make_stats_response\<close> on every non-empty name and for the
  http engine on every authorized request for \<open>/api/stats/<name>\<close>, where the name is never
  empty. With the cache file absent or unparseable the answer is 503 with the message
  \<open>Cache not found\<close>, whatever section is asked for; 503 is neither the 404 of a missing
  section nor the 401 of a rejected key.
\<close>

theorem section_query_conditions:
  "(cache env = CacheDoc data \<and> name \<noteq> [] \<and> dict_get data name = None \<longrightarrow>
      make_stats_response env (Some name) =
        (404, JObject [(''error'', JString (''Section '' @ [CHR 0x27] @ name @ [CHR 0x27]
                                            @ '' not found'')),
                       (''available'',
                          JArray (map JString
                            (filter (\<lambda>k. k \<notin> {''atlas_version'', ''collected_at'', ''hostname''})
                               (dict_keys data))))]))
   \<and> (cache env = CacheDoc data \<and> take 11 (rstrip_slash (path req)) = ''/api/stats/''
        \<and> check_key (get_key_from_request (headers req) (http_params (query req))) cfg
        \<and> dict_get data (drop 11 (rstrip_slash (path req))) = None \<longrightarrow>
      do_GET py_int cfg env req =
        (404, JObject [(''error'', JString (''Section '' @ [CHR 0x27]
                                            @ drop 11 (rstrip_slash (path req)) @ [CHR 0x27]
                                            @ '' not found'')),
                       (''available'',
                          JArray (map JString
                            (filter (\<lambda>k. k \<notin> {''atlas_version'', ''collected_at'', ''hostname''})
                               (dict_keys data))))]))
   \<and> (cache env = NoCacheFile \<or> cache env = UnparseableCache \<longrightarrow>
        make_stats_response env section_arg = cache_not_found)
   \<and> cache_not_found
        = (503, JObject [(''error'', JString (''Cache not found '' @ em_dash
                                              @ '' is collector running?''))])
   \<and> fst unauthorized = 401"
proof -
  have a: "make_stats_response env (Some n) =
        (404, JObject [(''error'', JString (''Section '' @ [CHR 0x27] @ n @ [CHR 0x27]
                                            @ '' not found'')),
                       (''available'',
                          JArray (map JString
                            (filter (\<lambda>k. k \<notin> {''atlas_version'', ''collected_at'', ''hostname''})
                               (dict_keys data))))])"
    if "cache env = CacheDoc data" "n \<noteq> []" "dict_get data n = None" for n
  proof -
    from that(2) obtain c cs where n: "n = c # cs" by (cases n) auto
    show ?thesis
      using that(1,3) unfolding make_stats_response_def Let_def n
      by (simp add: load_cache_def metadata_keys_def)
  qed
  have b: "do_GET py_int cfg env req = make_stats_response env (Some (drop 11 (rstrip_slash (path req))))"
    if "take 11 (rstrip_slash (path req)) = ''/api/stats/''"
       "check_key (get_key_from_request (headers req) (http_params (query req))) cfg"
  proof -
    from that(1) have "rstrip_slash (path req) \<noteq> ''/api/ping''"
      and "rstrip_slash (path req) \<noteq> ''/api/stats''"
      by auto
    with that show ?thesis
      unfolding do_GET_def Let_def by simp
  qed
  have c: "make_stats_response env section_arg = cache_not_found"
    if "cache env = NoCacheFile \<or> cache env = UnparseableCache"
    using that unfolding make_stats_response_def by (auto simp add: load_cache_def)
  have d: "fst unauthorized = 401"
    by (simp add: unauthorized_def error_response_def)
  show ?thesis
    using a [of name] a [of "drop 11 (rstrip_slash (path req))"] b c d
      rstrip_slash_section_nonempty [of "path req"]
    by (simp add: cache_not_found_def)
qed

theorem section_query_conditions_witness:
  "do_GET decimal_int []
      \<lparr>cache = CacheDoc [(''atlas_version'', JString ''2.1.0''),
                          (''collected_at'', JString ''2026-11-04T12:00:00+00:00''),
                          (''hostname'', JString ''atlas''),
                          (''cpu'', JObject []), (''ram'', JObject []), (''disk'', JObject [])],
        db = NoDb, now = 0\<rparr>
      \<lparr>path = ''/api/stats/network'', query = [], headers = []\<rparr>
    = (404, JObject [(''error'', JString ''Section 'network' not found''),
                     (''available'', JArray [JString ''cpu'', JString ''ram'', JString ''disk''])])
   \<and> make_stats_response \<lparr>cache = UnparseableCache, db = NoDb, now = 0\<rparr> (Some ''network'')
       = cache_not_found"
proof -
  let ?data = "[(''atlas_version'', JString ''2.1.0''),
                (''collected_at'', JString ''2026-11-04T12:00:00+00:00''),
                (''hostname'', JString ''atlas''),
                (''cpu'', JObject []), (''ram'', JObject []), (''disk'', JObject [])]"
  let ?env = "\<lparr>cache = CacheDoc ?data, db = NoDb, now = 0\<rparr>"
  let ?req = "\<lparr>path = ''/api/stats/network'', query = [], headers = []\<rparr>"
  have strip: "rstrip_slash (path ?req) = ''/api/stats/network''"
    by (simp add: rstrip_slash_def)
  have key: "check_key (get_key_from_request (headers ?req) (http_params (query ?req))) []"
    unfolding check_key_def Let_def by (simp add: dict_get_default_def dict_get_Nil)
  have absent: "dict_get ?data (drop 11 (rstrip_slash (path ?req))) = None"
    unfolding strip by (simp add: dict_get_Cons dict_get_Nil)
  note first = section_query_conditions [where env = ?env and data = ?data and req = ?req
      and cfg = "[]" and py_int = decimal_int]
  note second = section_query_conditions
      [where env = "\<lparr>cache = UnparseableCache, db = NoDb, now = 0\<rparr>"
         and section_arg = "Some ''network''"]
  from first strip key absent
  have "do_GET decimal_int [] ?env ?req
    = (404, JObject [(''error'', JString ''Section 'network' not found''),
                     (''available'', JArray [JString ''cpu'', JString ''ram'', JString ''disk''])])"
    by (simp add: dict_keys_def)
  moreover from second
  have "make_stats_response \<lparr>cache = UnparseableCache, db = NoDb, now = 0\<rparr> (Some ''network'')
       = cache_not_found"
    by simp
  ultimately show ?thesis by simp
qed

section \<open>History endpoint\<close>







section \<open>Authentication\<close>

lemma make_stats_response_codes:
  "fst (make_stats_response env section_arg) \<in> {200, 404, 503}"
  unfolding make_stats_response_def Let_def
  by (simp add: cache_not_found_def split: option.splits list.splits)

lemma make_history_response_codes:
  "fst (make_history_response py_int env limit) \<in> {200, 404, 500}"
  unfolding make_history_response_def Let_def
  by (simp add: error_response_def split: sum.splits db_file.splits)

text \<open>
  C3. Auth symmetry. If the configured \<open>api_key\<close> is empty (or absent, or any other falsy
  value), no request to either engine is answered 401. If a key is configured, a request
  whose presented key (the \<open>X-ATLAS-Key\<close> header, else the \<open>x-atlas-key\<close> header, else the
  \<open>key\<close> query parameter, else the empty string) differs from it is answered with the 401
  response: on the http engine for every path other than ping, on the Flask engine for
  \<open>/api/stats\<close>, \<open>/api/stats/<section>\<close> and \<open>/api/history\<close>. Ping is answered 200 on
  both engines whatever key is configured or presented.
\<close>

theorem auth_symmetry:
  "(\<not> truthy (dict_get_default cfg ''api_key'' (JString '''')) \<longrightarrow>
      fst (do_GET py_int cfg env req) \<noteq> 401 \<and> fst (flask_serve py_int cfg env req) \<noteq> 401)
   \<and> (truthy (dict_get_default cfg ''api_key'' (JString ''''))
        \<and> JString (get_key_from_request (headers req) (http_params (query req)))
            \<noteq> dict_get_default cfg ''api_key'' (JString '''')
        \<and> rstrip_slash (path req) \<noteq> ''/api/ping'' \<longrightarrow>
      do_GET py_int cfg env req
        = (401, JObject [(''error'', JString (''Unauthorized '' @ em_dash
                                               @ '' provide X-ATLAS-Key header''))]))
   \<and> (truthy (dict_get_default cfg ''api_key'' (JString ''''))
        \<and> JString (get_key_from_request (headers req) (flask_args (query req)))
            \<noteq> dict_get_default cfg ''api_key'' (JString '''')
        \<and> (flask_match (path req) = StatsRule
             \<or> flask_match (path req) = StatsSectionRule (drop 11 (path req))
             \<or> flask_match (path req) = HistoryRule) \<longrightarrow>
      flask_serve py_int cfg env req
        = (401, JObject [(''error'', JString (''Unauthorized '' @ em_dash
                                               @ '' provide X-ATLAS-Key header''))]))
   \<and> (rstrip_slash (path req) = ''/api/ping'' \<longrightarrow> fst (do_GET py_int cfg env req) = 200)
   \<and> (path req = ''/api/ping'' \<longrightarrow> fst (flask_serve py_int cfg env req) = 200)"
proof -
  have stats: "fst (make_stats_response env a) \<noteq> 401" for a
    using make_stats_response_codes [of env a] by auto
  have hist: "fst (make_history_response py_int env l) \<noteq> 401" for l
    using make_history_response_codes [of py_int env l] by auto
  have "open": "fst (do_GET py_int cfg env req) \<noteq> 401 \<and> fst (flask_serve py_int cfg env req) \<noteq> 401"
    if "\<not> truthy (dict_get_default cfg ''api_key'' (JString ''''))"
  proof -
    from that have ok: "check_key k cfg" for k
      unfolding check_key_def Let_def by simp
    have "fst (do_GET py_int cfg env req) \<noteq> 401"
      unfolding do_GET_def Let_def
      by (simp add: ok stats hist make_ping_response_def not_found_def error_response_def)
    moreover have "fst (flask_serve py_int cfg env req) \<noteq> 401"
      unfolding flask_serve_def flask_auth_def
      by (simp add: ok stats hist not_found_def error_response_def split: flask_rule.splits)
    ultimately show ?thesis by simp
  qed
  have http: "do_GET py_int cfg env req = unauthorized"
    if "truthy (dict_get_default cfg ''api_key'' (JString ''''))"
       "JString (get_key_from_request (headers req) (http_params (query req)))
            \<noteq> dict_get_default cfg ''api_key'' (JString '''')"
       "rstrip_slash (path req) \<noteq> ''/api/ping''"
  proof -
    from that(1,2) have "\<not> check_key (get_key_from_request (headers req) (http_params (query req))) cfg"
      unfolding check_key_def Let_def by simp
    with that(3) show ?thesis
      unfolding do_GET_def Let_def by simp
  qed
  have flask: "flask_serve py_int cfg env req = unauthorized"
    if "truthy (dict_get_default cfg ''api_key'' (JString ''''))"
       "JString (get_key_from_request (headers req) (flask_args (query req)))
            \<noteq> dict_get_default cfg ''api_key'' (JString '''')"
       "flask_match (path req) = StatsRule
             \<or> flask_match (path req) = StatsSectionRule (drop 11 (path req))
             \<or> flask_match (path req) = HistoryRule"
  proof -
    from that(1,2) have "\<not> flask_auth cfg req"
      unfolding flask_auth_def check_key_def Let_def by simp
    with that(3) show ?thesis
      unfolding flask_serve_def by auto
  qed
  have ping1: "fst (do_GET py_int cfg env req) = 200" if "rstrip_slash (path req) = ''/api/ping''"
    using that unfolding do_GET_def Let_def by (simp add: make_ping_response_def)
  have ping2: "fst (flask_serve py_int cfg env req) = 200" if "path req = ''/api/ping''"
    using that unfolding flask_serve_def by (simp add: flask_match_def)
  show ?thesis
    using "open" http flask ping1 ping2
    by (simp add: unauthorized_def error_response_def)
qed

theorem auth_symmetry_witness:
  "do_GET decimal_int [(''api_key'', JString ''s3cret'')]
      \<lparr>cache = CacheDoc [(''cpu'', JObject [])], db = NoDb, now = 0\<rparr>
      \<lparr>path = ''/api/stats'', query = [(''key'', ''guess'')], headers = []\<rparr>
    = (401, JObject [(''error'', JString (''Unauthorized '' @ em_dash
                                           @ '' provide X-ATLAS-Key header''))])
   \<and> flask_serve decimal_int [(''api_key'', JString ''s3cret'')]
      \<lparr>cache = CacheDoc [(''cpu'', JObject [])], db = NoDb, now = 0\<rparr>
      \<lparr>path = ''/api/stats'', query = [(''key'', ''guess'')], headers = []\<rparr>
    = (401, JObject [(''error'', JString (''Unauthorized '' @ em_dash
                                           @ '' provide X-ATLAS-Key header''))])
   \<and> fst (do_GET decimal_int [(''api_key'', JString '''')]
      \<lparr>cache = CacheDoc [(''cpu'', JObject [])], db = NoDb, now = 0\<rparr>
      \<lparr>path = ''/api/stats'', query = [(''key'', ''guess'')], headers = []\<rparr>) \<noteq> 401"
proof -
  let ?cfg = "[(''api_key'', JString ''s3cret'')]"
  let ?env = "\<lparr>cache = CacheDoc [(''cpu'', JObject [])], db = NoDb, now = 0\<rparr>"
  let ?req = "\<lparr>path = ''/api/stats'', query = [(''key'', ''guess'')], headers = []\<rparr>"
  have key: "dict_get_default ?cfg ''api_key'' (JString '''') = JString ''s3cret''"
    by (simp add: dict_get_default_def dict_get_Cons)
  have nokey: "dict_get_default [(''api_key'', JString '''')] ''api_key'' (JString '''')
      = JString ''''"
    by (simp add: dict_get_default_def dict_get_Cons)
  have p1: "get_key_from_request (headers ?req) (http_params (query ?req)) = ''guess''"
    by (simp add: get_key_from_request_def http_params_def)
  have p2: "get_key_from_request (headers ?req) (flask_args (query ?req)) = ''guess''"
    by (simp add: get_key_from_request_def flask_args_def)
  have strip: "rstrip_slash (path ?req) = ''/api/stats''"
    by (simp add: rstrip_slash_def)
  have rule: "flask_match (path ?req) = StatsRule"
    by (simp add: flask_match_def)
  note closed = auth_symmetry [where cfg = ?cfg and env = ?env and req = ?req
      and py_int = decimal_int]
  note opened = auth_symmetry [where cfg = "[(''api_key'', JString '''')]" and env = ?env
      and req = ?req and py_int = decimal_int]
  from closed key p1 p2 strip rule
  have "do_GET decimal_int ?cfg ?env ?req
    = (401, JObject [(''error'', JString (''Unauthorized '' @ em_dash
                                           @ '' provide X-ATLAS-Key header''))])"
    and "flask_serve decimal_int ?cfg ?env ?req
    = (401, JObject [(''error'', JString (''Unauthorized '' @ em_dash
                                           @ '' provide X-ATLAS-Key header''))])"
    by simp_all
  moreover from opened nokey
  have "fst (do_GET decimal_int [(''api_key'', JString '''')] ?env ?req) \<noteq> 401"
    by simp
  ultimately show ?thesis by simp
qed

section \<open>The two transport engines\<close>

lemma ascii_lower_not_upper:
  assumes "c \<in> set ascii_uppercase"
  shows "ascii_lower c \<notin> set ascii_uppercase"
  using assms unfolding ascii_lower_def ascii_uppercase_def ascii_lowercase_def
  by auto

lemma ascii_upper_not_lower:
  assumes "c \<in> set ascii_lowercase"
  shows "ascii_upper c \<notin> set ascii_lowercase"
  using assms unfolding ascii_upper_def ascii_uppercase_def ascii_lowercase_def
  by auto

lemma ascii_cases_disjoint:
  assumes "c \<in> set ascii_lowercase"
  shows "c \<notin> set ascii_uppercase"
  using assms unfolding ascii_uppercase_def ascii_lowercase_def
  by auto

lemma title_from_Cons:
  assumes "title_from p s = d # ds"
  obtains c cs where "s = c # cs"
    and "ds = title_from (d \<in> set ascii_lowercase \<or> d \<in> set ascii_uppercase) cs"
    and "p \<Longrightarrow> d \<notin> set ascii_uppercase"
    and "\<not> p \<Longrightarrow> d \<notin> set ascii_lowercase"
proof (cases s)
  case Nil
  with assms show ?thesis by simp
next
  case (Cons c cs)
  consider "c \<in> set ascii_lowercase" | "c \<notin> set ascii_lowercase" "c \<in> set ascii_uppercase"
    | "c \<notin> set ascii_lowercase" "c \<notin> set ascii_uppercase"
    by blast
  then show ?thesis
  proof cases
    case 1
    with assms Cons have d: "d = (if p then c else ascii_upper c)"
      and ds: "ds = title_from True cs"
      by simp_all
    have "p \<Longrightarrow> d \<in> set ascii_lowercase"
      using d 1 by simp
    moreover have "\<not> p \<Longrightarrow> d \<in> set ascii_uppercase"
      using d 1 unfolding ascii_upper_def ascii_uppercase_def ascii_lowercase_def by auto
    ultimately show ?thesis
      using that [of c cs] Cons ds ascii_cases_disjoint [of d] by (cases p) auto
  next
    case 2
    with assms Cons have d: "d = (if p then ascii_lower c else c)"
      and ds: "ds = title_from True cs"
      by simp_all
    have "p \<Longrightarrow> d \<in> set ascii_lowercase"
      using d 2(2) unfolding ascii_lower_def ascii_uppercase_def ascii_lowercase_def by auto
    moreover have "\<not> p \<Longrightarrow> d \<in> set ascii_uppercase"
      using d 2 by simp
    ultimately show ?thesis
      using that [of c cs] Cons ds ascii_cases_disjoint [of d] by (cases p) auto
  next
    case 3
    with assms Cons have "d = c" and "ds = title_from False cs"
      by simp_all
    with 3 show ?thesis
      using that [of c cs] Cons by simp
  qed
qed

lemma py_title_not_upper_key: "py_title s \<noteq> ''X-ATLAS-Key''"
proof
  assume "py_title s = ''X-ATLAS-Key''"
  then have "title_from False s = CHR ''X'' # ''-ATLAS-Key''"
    by (simp add: py_title_def)
  then obtain s1 where "''-ATLAS-Key''
      = title_from (CHR ''X'' \<in> set ascii_lowercase \<or> CHR ''X'' \<in> set ascii_uppercase) s1"
    by (rule title_from_Cons)
  then have "title_from True s1 = CHR ''-'' # ''ATLAS-Key''"
    by (simp add: ascii_uppercase_def)
  then obtain s2 where "''ATLAS-Key''
      = title_from (CHR ''-'' \<in> set ascii_lowercase \<or> CHR ''-'' \<in> set ascii_uppercase) s2"
    by (rule title_from_Cons)
  then have "title_from False s2 = CHR ''A'' # ''TLAS-Key''"
    by (simp add: ascii_uppercase_def ascii_lowercase_def)
  then obtain s3 where "''TLAS-Key''
      = title_from (CHR ''A'' \<in> set ascii_lowercase \<or> CHR ''A'' \<in> set ascii_uppercase) s3"
    by (rule title_from_Cons)
  then have "title_from True s3 = CHR ''T'' # ''LAS-Key''"
    by (simp add: ascii_uppercase_def)
  then have "CHR ''T'' \<notin> set ascii_uppercase"
    by (rule title_from_Cons) simp
  then show False
    by (simp add: ascii_uppercase_def)
qed

lemma py_title_not_lower_key: "py_title s \<noteq> ''x-atlas-key''"
proof
  assume "py_title s = ''x-atlas-key''"
  then have "title_from False s = CHR ''x'' # ''-atlas-key''"
    by (simp add: py_title_def)
  then have "CHR ''x'' \<notin> set ascii_lowercase"
    by (rule title_from_Cons) simp
  then show False
    by (simp add: ascii_lowercase_def)
qed

lemma flask_header_dict_no_key:
  "map_of (flask_header_dict header_lines) ''X-ATLAS-Key'' = None"
  "map_of (flask_header_dict header_lines) ''x-atlas-key'' = None"
proof -
  have "k \<notin> fst ` set (flask_header_dict header_lines)"
    if "\<forall>s. py_title s \<noteq> k" for k
    using that unfolding flask_header_dict_def by (auto simp add: image_iff)
  then show "map_of (flask_header_dict header_lines) ''X-ATLAS-Key'' = None"
    and "map_of (flask_header_dict header_lines) ''x-atlas-key'' = None"
    using py_title_not_upper_key py_title_not_lower_key
    by (simp_all add: map_of_eq_None_iff)
qed

text \<open>
  A second difference: with a key configured, a request for an unknown path that presents
  no key is answered 401 by the http engine, which checks the key before it looks at the
  path, and 404 by the Flask engine, where no view (and so no key check) runs for a path
  that matches no rule.
\<close>

lemma engine_divergence_unknown_path:
  "do_GET decimal_int [(''api_key'', JString ''s3cret'')]
      \<lparr>cache = NoCacheFile, db = NoDb, now = 0\<rparr>
      \<lparr>path = ''/api/nope'', query = [], headers = http_header_dict []\<rparr>
    = (401, JObject [(''error'', JString (''Unauthorized '' @ em_dash
                                           @ '' provide X-ATLAS-Key header''))])
   \<and> flask_serve decimal_int [(''api_key'', JString ''s3cret'')]
      \<lparr>cache = NoCacheFile, db = NoDb, now = 0\<rparr>
      \<lparr>path = ''/api/nope'', query = [], headers = flask_header_dict []\<rparr>
    = (404, JObject [(''error'', JString ''Not found'')])"
proof -
  let ?cfg = "[(''api_key'', JString ''s3cret'')]"
  let ?env = "\<lparr>cache = NoCacheFile, db = NoDb, now = 0\<rparr>"
  let ?req = "\<lparr>path = ''/api/nope'', query = [], headers = http_header_dict []\<rparr>"
  have "\<not> check_key (get_key_from_request (headers ?req) (http_params (query ?req))) ?cfg"
    unfolding check_key_def Let_def
    by (simp add: dict_get_default_def dict_get_Cons get_key_from_request_def http_params_def
          http_header_dict_def)
  moreover have "rstrip_slash (path ?req) = ''/api/nope''"
    by (simp add: rstrip_slash_def)
  ultimately have a: "do_GET decimal_int ?cfg ?env ?req
    = (401, JObject [(''error'', JString (''Unauthorized '' @ em_dash
                                           @ '' provide X-ATLAS-Key header''))])"
    unfolding do_GET_def Let_def by (simp add: unauthorized_def error_response_def)
  have b: "flask_serve decimal_int ?cfg ?env
      \<lparr>path = ''/api/nope'', query = [], headers = flask_header_dict []\<rparr>
    = (404, JObject [(''error'', JString ''Not found'')])"
    unfolding flask_serve_def
    by (simp add: flask_match_def not_found_def error_response_def)
  from a b show ?thesis by simp
qed

text \<open>
  C4 does not hold of the code. With the key \<open>s3cret\<close> configured, the request
  \<open>GET /api/stats\<close> with the header line \<open>X-ATLAS-Key: s3cret\<close> is answered 200 with the
  snapshot by the http engine and 401 by the Flask engine. \<open>get_key_from_request\<close> looks
  the header up as \<open>X-ATLAS-Key\<close> and as \<open>x-atlas-key\<close>; the dict of the http engine holds
  the name as the client spelled it, the dict of the Flask engine holds it as
  \<open>X-Atlas-Key\<close>. No spelling of a header reaches the Flask engine under either of the two
  names, so there the key is only ever read from the query parameter.
\<close>

theorem engine_divergence_header_key:
  "get_key_from_request (flask_header_dict header_lines) params
     = (case params ''key'' of Some v \<Rightarrow> v | None \<Rightarrow> '''')
   \<and> do_GET decimal_int [(''api_key'', JString ''s3cret'')]
        \<lparr>cache = CacheDoc [(''hostname'', JString ''atlas'')], db = NoDb, now = 0\<rparr>
        \<lparr>path = ''/api/stats'', query = [],
          headers = http_header_dict [(''X-ATLAS-Key'', ''s3cret'')]\<rparr>
       = (200, JObject [(''hostname'', JString ''atlas'')])
   \<and> flask_serve decimal_int [(''api_key'', JString ''s3cret'')]
        \<lparr>cache = CacheDoc [(''hostname'', JString ''atlas'')], db = NoDb, now = 0\<rparr>
        \<lparr>path = ''/api/stats'', query = [],
          headers = flask_header_dict [(''X-ATLAS-Key'', ''s3cret'')]\<rparr>
       = (401, JObject [(''error'', JString (''Unauthorized '' @ em_dash
                                              @ '' provide X-ATLAS-Key header''))])"
proof -
  let ?cfg = "[(''api_key'', JString ''s3cret'')]"
  let ?env = "\<lparr>cache = CacheDoc [(''hostname'', JString ''atlas'')], db = NoDb, now = 0\<rparr>"
  let ?lines = "[(''X-ATLAS-Key'', ''s3cret'')]"
  have flask_key: "get_key_from_request (flask_header_dict ls) ps
     = (case ps ''key'' of Some v \<Rightarrow> v | None \<Rightarrow> '''')" for ls ps
    unfolding get_key_from_request_def by (simp add: flask_header_dict_no_key)
  have "get_key_from_request (http_header_dict ?lines) (http_params []) = ''s3cret''"
    by (simp add: get_key_from_request_def http_header_dict_def)
  then have ok: "check_key (get_key_from_request (http_header_dict ?lines) (http_params [])) ?cfg"
    unfolding check_key_def Let_def by (simp add: dict_get_default_def dict_get_Cons)
  have a: "do_GET decimal_int ?cfg ?env
        \<lparr>path = ''/api/stats'', query = [], headers = http_header_dict ?lines\<rparr>
       = (200, JObject [(''hostname'', JString ''atlas'')])"
    unfolding do_GET_def Let_def using ok
    by (simp add: rstrip_slash_def make_stats_response_def load_cache_def)
  have "get_key_from_request (flask_header_dict ?lines) (flask_args []) = ''''"
    by (simp add: flask_key flask_args_def)
  then have "\<not> flask_auth ?cfg
        \<lparr>path = ''/api/stats'', query = [], headers = flask_header_dict ?lines\<rparr>"
    unfolding flask_auth_def check_key_def Let_def
    by (simp add: dict_get_default_def dict_get_Cons)
  then have b: "flask_serve decimal_int ?cfg ?env
        \<lparr>path = ''/api/stats'', query = [], headers = flask_header_dict ?lines\<rparr>
       = (401, JObject [(''error'', JString (''Unauthorized '' @ em_dash
                                              @ '' provide X-ATLAS-Key header''))])"
    unfolding flask_serve_def
    by (simp add: flask_match_def unauthorized_def error_response_def)
  from flask_key a b show ?thesis by simp
qed

section \<open>Atomicity of the cache write\<close>

lemma tmp_states_cache:
  assumes "s \<in> set (tmp_states fs (CACHE_FILE @ ''.tmp'') text n)"
  shows "s CACHE_FILE = fs CACHE_FILE"
  using assms unfolding tmp_states_def by auto

lemma write_cache_trace_cache:
  assumes "s \<in> set (write_cache_trace ser fs stats fault)"
  shows "s CACHE_FILE = fs CACHE_FILE \<or> s CACHE_FILE = Some (ser stats)"
  using assms tmp_states_cache [of s fs]
  unfolding write_cache_trace_def Let_def
  by (cases fault) auto

lemma write_cache_trace_last_fault:
  assumes "fault \<noteq> NoFault"
  shows "last (write_cache_trace ser fs stats fault) CACHE_FILE = fs CACHE_FILE"
proof -
  have "write_cache_trace ser fs stats fault \<noteq> []"
    unfolding write_cache_trace_def Let_def by (cases fault) simp_all
  then have "last (write_cache_trace ser fs stats fault) \<in> set (write_cache_trace ser fs stats fault)"
    by (rule last_in_set)
  moreover have "s CACHE_FILE = fs CACHE_FILE"
    if "s \<in> set (write_cache_trace ser fs stats fault)" for s
    using that assms tmp_states_cache [of s fs]
    unfolding write_cache_trace_def Let_def
    by (cases fault) auto
  ultimately show ?thesis by blast
qed

text \<open>
  C2. Cache write atomicity. \<open>write_cache\<close> writes the serialization to
  \<open>CACHE_FILE + ".tmp"\<close>, which lies in the directory of the cache file, and then replaces
  the cache file in one step. In every state of the file system that can be observed
  while the write runs, whether it completes or raises at any point, the cache file holds
  either what it held before the call or the complete serialization of the new snapshot,
  so a reader whose existence test and whose read fall on any two of these states
  gets what it would get from one of these two files, never a parse of a partial text. A write that raises (on opening the temporary file, while serializing,
  or in the replace) leaves the cache file as it was; a write that does not raise leaves
  the complete serialization there.
\<close>

theorem write_cache_atomic:
  "dirname (CACHE_FILE @ ''.tmp'') = dirname CACHE_FILE
   \<and> (\<forall>s \<in> set (write_cache_trace ser fs stats fault).
         s CACHE_FILE = fs CACHE_FILE \<or> s CACHE_FILE = Some (ser stats))
   \<and> (\<forall>seen \<in> set (write_cache_trace ser fs stats fault).
       \<forall>opened \<in> set (write_cache_trace ser fs stats fault).
         load_cache_during loads seen opened
           \<in> {load_cache (cache_file_of loads (fs CACHE_FILE)),
              load_cache (cache_file_of loads (Some (ser stats)))})
   \<and> (fault \<noteq> NoFault \<longrightarrow> write_cache ser fs stats fault CACHE_FILE = fs CACHE_FILE)
   \<and> write_cache ser fs stats NoFault CACHE_FILE = Some (ser stats)"
proof -
  have a: "dirname (CACHE_FILE @ ''.tmp'') = dirname CACHE_FILE"
    by (simp add: dirname_def CACHE_FILE_def)
  have b: "\<forall>s \<in> set (write_cache_trace ser fs stats fault).
         s CACHE_FILE = fs CACHE_FILE \<or> s CACHE_FILE = Some (ser stats)"
    using write_cache_trace_cache by blast
  have c: "load_cache_during loads seen opened
           \<in> {load_cache (cache_file_of loads (fs CACHE_FILE)),
              load_cache (cache_file_of loads (Some (ser stats)))}"
    if "seen \<in> set (write_cache_trace ser fs stats fault)"
       "opened \<in> set (write_cache_trace ser fs stats fault)" for seen opened
    using write_cache_trace_cache [OF that(1)] write_cache_trace_cache [OF that(2)]
    unfolding load_cache_during_def
    by (auto simp add: cache_file_of_def load_cache_def)
  have d: "write_cache ser fs stats fault CACHE_FILE = fs CACHE_FILE" if "fault \<noteq> NoFault"
    unfolding write_cache_def using that by (rule write_cache_trace_last_fault)
  have e: "write_cache ser fs stats NoFault CACHE_FILE = Some (ser stats)"
    unfolding write_cache_def write_cache_trace_def Let_def by simp
  from a b c d e show ?thesis by blast
qed

theorem write_cache_atomic_witness:
  "write_cache (\<lambda>d. ''{}'') [CACHE_FILE \<mapsto> ''{ }''] []
      (DumpFails 1 (Exn OtherException ''No space left on device'')) CACHE_FILE = Some ''{ }''
   \<and> [CACHE_FILE \<mapsto> ''{ }'', CACHE_FILE @ ''.tmp'' \<mapsto> ''{'']
       \<in> set (write_cache_trace (\<lambda>d. ''{}'') [CACHE_FILE \<mapsto> ''{ }''] []
                (DumpFails 1 (Exn OtherException ''No space left on device'')))
   \<and> load_cache_during (\<lambda>t. if t = ''{}'' \<or> t = ''{ }'' then Some [] else None)
        [CACHE_FILE \<mapsto> ''{ }'']
        [CACHE_FILE \<mapsto> ''{ }'', CACHE_FILE @ ''.tmp'' \<mapsto> ''{'']
       = Some []"
proof -
  let ?ser = "\<lambda>d :: dict. ''{}''"
  let ?fs = "[CACHE_FILE \<mapsto> ''{ }'']"
  let ?fault = "DumpFails 1 (Exn OtherException ''No space left on device'')"
  let ?mid = "[CACHE_FILE \<mapsto> ''{ }'', CACHE_FILE @ ''.tmp'' \<mapsto> ''{'']"
  let ?loads = "\<lambda>t. if t = ''{}'' \<or> t = ''{ }'' then Some ([] :: dict) else None"
  have first: "?fs \<in> set (write_cache_trace ?ser ?fs [] ?fault)"
    unfolding write_cache_trace_def Let_def by simp
  have "?mid \<in> (\<lambda>k. ?fs(CACHE_FILE @ ''.tmp'' \<mapsto> take k ''{}'')) ` {0..<Suc 1}"
    by (rule image_eqI [where x = 1]) simp_all
  then have mid: "?mid \<in> set (write_cache_trace ?ser ?fs [] ?fault)"
    unfolding write_cache_trace_def tmp_states_def Let_def by simp
  note atomic = write_cache_atomic [where ser = ?ser and fs = ?fs and stats = "[]"
      and fault = ?fault and loads = ?loads]
  from atomic have "write_cache ?ser ?fs [] ?fault CACHE_FILE = Some ''{ }''"
    by simp
  moreover from atomic first mid
  have "load_cache_during ?loads ?fs ?mid
      \<in> {load_cache (cache_file_of ?loads (?fs CACHE_FILE)),
         load_cache (cache_file_of ?loads (Some (?ser [])))}"
    by blast
  then have "load_cache_during ?loads ?fs ?mid = Some []"
    by (simp add: cache_file_of_def load_cache_def)
  ultimately show ?thesis using mid by simp
qed

section \<open>Limit of a history query\<close>

lemma history_limit_upper_clamp:
  assumes "db env = Db t" and "int_of_limit py_int limit = Inr n" and "1000 < n"
  shows "make_history_response py_int env limit =
           (200, JObject
              [(''count'', JInt (int (length (take 1000 (order_by_collected_at_desc (table_rows t)))))),
               (''limit'', JInt 1000),
               (''snapshots'',
                  JArray (map row_dict (take 1000 (order_by_collected_at_desc (table_rows t)))))])"
  using assms unfolding make_history_response_def Let_def
  by (simp add: sql_limit_def)

text \<open>
  C5 does not hold of the code. A request \<open>/api/history?limit=-1\<close> on a store with two
  rows is answered 200 with both rows and \<open>"limit": -1\<close>, not with an empty sequence:
  \<open>min(int(limit), 1000)\<close> leaves a negative limit as it is, and SQLite reads a negative
  \<open>LIMIT\<close> as no limit, so the bound of 1000 does not apply either.
\<close>

theorem history_limit_negative:
  "do_GET decimal_int []
      \<lparr>cache = NoCacheFile,
        db = Db \<lparr>seq = 2, table_rows =
         [\<lparr>row_id = 1, collected_at = SqlText ''2026-11-04T11:59:30+00:00'',
           hostname = SqlText ''atlas'', cpu_percent = SqlNull, ram_percent = SqlNull,
           disk_percent = SqlNull, raw_json = []\<rparr>,
          \<lparr>row_id = 2, collected_at = SqlText ''2026-11-04T12:00:00+00:00'',
           hostname = SqlText ''atlas'', cpu_percent = SqlNull, ram_percent = SqlNull,
           disk_percent = SqlNull, raw_json = []\<rparr>]\<rparr>,
        now = 0\<rparr>
      \<lparr>path = ''/api/history'', query = [(''limit'', ''-1'')], headers = []\<rparr>
    = (200, JObject [(''count'', JInt 2), (''limit'', JInt (- 1)),
         (''snapshots'', JArray
            [JObject [(''collected_at'', JString ''2026-11-04T12:00:00+00:00''),
                      (''hostname'', JString ''atlas''), (''cpu_percent'', JNull),
                      (''ram_percent'', JNull), (''disk_percent'', JNull)],
             JObject [(''collected_at'', JString ''2026-11-04T11:59:30+00:00''),
                      (''hostname'', JString ''atlas''), (''cpu_percent'', JNull),
                      (''ram_percent'', JNull), (''disk_percent'', JNull)]])])"
  by code_simp

section \<open>Retention of the history store\<close>

lemma civil_from_days_20754: "civil_from_days 20754 = (2026, 10, 28)"
  by code_simp

lemma civil_from_days_20761: "civil_from_days 20761 = (2026, 11, 4)"
  by code_simp

lemma date_text_20754:
  assumes "secs div 86400 = 20754"
  shows "date_text secs = ''2026-10-28''"
  unfolding date_text_def assms civil_from_days_20754
  by (simp add: pad4_def pad2_def digit_char_def)

lemma date_text_20761:
  assumes "secs div 86400 = 20761"
  shows "date_text secs = ''2026-11-04''"
  unfolding date_text_def assms civil_from_days_20761
  by (simp add: pad4_def pad2_def digit_char_def)

lemma isoformat_utc_old: "isoformat_utc 1793149200000000 = ''2026-10-28T01:00:00+00:00''"
  unfolding isoformat_utc_def Let_def
  by (simp add: date_text_20754 clock_text_def pad2_def digit_char_def)

lemma isoformat_utc_new: "isoformat_utc 1793793600000000 = ''2026-11-04T12:00:00+00:00''"
  unfolding isoformat_utc_def Let_def
  by (simp add: date_text_20761 clock_text_def pad2_def digit_char_def)

lemma cutoff_7_days:
  "sqlite_datetime_now_minus_days 1793793600000000 7 = Some ''2026-10-28 12:00:00''"
  unfolding sqlite_datetime_now_minus_days_def Let_def
  by (simp add: date_text_20754 clock_text_def pad2_def digit_char_def)

lemma civil_from_days_20747: "civil_from_days 20747 = (2026, 10, 21)"
  by code_simp

lemma date_text_20747:
  assumes "secs div 86400 = 20747"
  shows "date_text secs = ''2026-10-21''"
  unfolding date_text_def assms civil_from_days_20747
  by (simp add: pad4_def pad2_def digit_char_def)

lemma cutoff_first_append:
  "sqlite_datetime_now_minus_days 1793149200000000 7 = Some ''2026-10-21 01:00:00''"
  unfolding sqlite_datetime_now_minus_days_def Let_def
  by (simp add: date_text_20747 clock_text_def pad2_def digit_char_def)

lemma insert_values_plain:
  "insert_values [(''atlas_version'', JString v), (''collected_at'', JString c),
                  (''hostname'', JString h)]
     = Inr (SqlText c, SqlText h, SqlNull, SqlNull, SqlNull)"
  unfolding insert_values_def disk_pct_def get_get_def sqlite_bind_def
  by (simp add: dict_get_Cons dict_get_Nil)

text \<open>
  C6 does not hold of the code. With \<open>history_keep_days = 7\<close>, a first append at
  2026-10-28T01:00:00Z into an empty store and a second append at 2026-11-04T12:00:00Z,
  seven days and eleven hours later, leave both rows in the table: the row of the first
  append is older than seven days and is not deleted. The stored \<open>collected_at\<close> is the
  text \<open>2026-10-28T01:00:00+00:00\<close> of Python's \<open>isoformat\<close>, the cutoff is the text
  \<open>2026-10-28 12:00:00\<close> of SQLite's \<open>datetime\<close>, and the DELETE compares the two as
  text: they agree on the date, and then \<open>T\<close> is greater than the space.
\<close>

theorem retention_bound_violated:
  "isoformat_utc 1793149200000000 = ''2026-10-28T01:00:00+00:00''
   \<and> isoformat_utc 1793793600000000 = ''2026-11-04T12:00:00+00:00''
   \<and> 7 * 86400 * 1000000 < (1793793600000000 - 1793149200000000 :: int)
   \<and> write_history
         [(''atlas_version'', JString ''2.1.0''),
          (''collected_at'', JString ''2026-11-04T12:00:00+00:00''),
          (''hostname'', JString ''atlas'')]
         7 1793793600000000
         (fst (write_history
                 [(''atlas_version'', JString ''2.1.0''),
                  (''collected_at'', JString ''2026-10-28T01:00:00+00:00''),
                  (''hostname'', JString ''atlas'')]
                 7 1793149200000000 NoDb))
       = (Db \<lparr>seq = 2, table_rows =
            [\<lparr>row_id = 1, collected_at = SqlText ''2026-10-28T01:00:00+00:00'',
              hostname = SqlText ''atlas'', cpu_percent = SqlNull, ram_percent = SqlNull,
              disk_percent = SqlNull,
              raw_json = [(''atlas_version'', JString ''2.1.0''),
                          (''collected_at'', JString ''2026-10-28T01:00:00+00:00''),
                          (''hostname'', JString ''atlas'')]\<rparr>,
             \<lparr>row_id = 2, collected_at = SqlText ''2026-11-04T12:00:00+00:00'',
              hostname = SqlText ''atlas'', cpu_percent = SqlNull, ram_percent = SqlNull,
              disk_percent = SqlNull,
              raw_json = [(''atlas_version'', JString ''2.1.0''),
                          (''collected_at'', JString ''2026-11-04T12:00:00+00:00''),
                          (''hostname'', JString ''atlas'')]\<rparr>]\<rparr>, True)"
proof -
  have first: "write_history
                 [(''atlas_version'', JString ''2.1.0''),
                  (''collected_at'', JString ''2026-10-28T01:00:00+00:00''),
                  (''hostname'', JString ''atlas'')]
                 7 1793149200000000 NoDb
     = (Db \<lparr>seq = 1, table_rows =
            [\<lparr>row_id = 1, collected_at = SqlText ''2026-10-28T01:00:00+00:00'',
              hostname = SqlText ''atlas'', cpu_percent = SqlNull, ram_percent = SqlNull,
              disk_percent = SqlNull,
              raw_json = [(''atlas_version'', JString ''2.1.0''),
                          (''collected_at'', JString ''2026-10-28T01:00:00+00:00''),
                          (''hostname'', JString ''atlas'')]\<rparr>]\<rparr>, True)"
    unfolding write_history_def Let_def insert_values_plain cutoff_first_append
    by (simp add: older_than_def)
  show ?thesis
    unfolding first fst_conv
    unfolding write_history_def Let_def insert_values_plain cutoff_7_days
    by (simp add: older_than_def isoformat_utc_old isoformat_utc_new)
qed

end
